theory Spec2Isabelle
  imports Main
begin

section \<open>Data model\<close>

text \<open>
  The command line front end of extractcode (\<^verbatim>\<open>src/extractcode/cli.py\<close>) consumes the
  extraction events of \<^verbatim>\<open>extract_archives\<close>.  The module runs on Python 2 and 3, so a
  path is either of the text type \<^verbatim>\<open>compat.unicode\<close> or a byte string; the code branches
  on \<^verbatim>\<open>isinstance(source, compat.unicode)\<close>, and the model keeps the two apart.
\<close>

datatype pystr = Unicode string | Bytes string

text \<open>
  An extraction event, with the four attributes the module reads:
  \<^verbatim>\<open>xev.source\<close>, \<^verbatim>\<open>xev.done\<close>, \<^verbatim>\<open>xev.warnings\<close> and \<^verbatim>\<open>xev.errors\<close>.
  The attribute \<^verbatim>\<open>done\<close> is the field \<open>done'\<close>.
\<close>

record event =
  source :: pystr
  done' :: bool
  warnings :: "string list"
  errors :: "string list"

text \<open>
  The helpers of \<^verbatim>\<open>commoncode\<close> the module calls are not part of these sources.
  They are parameters of the model: \<^verbatim>\<open>fileutils.as_posixpath\<close>,
  \<^verbatim>\<open>fileutils.fsdecode\<close>, \<^verbatim>\<open>fileutils.file_name\<close>, and \<open>toascii_decode\<close> for the
  expression \<^verbatim>\<open>toascii(s, translit=True).decode('utf-8', 'replace')\<close>, which turns a byte
  string into text.
\<close>

record commoncode =
  as_posixpath :: "pystr \<Rightarrow> pystr"
  fsdecode :: "pystr \<Rightarrow> string"
  file_name :: "string \<Rightarrow> string"
  toascii_decode :: "string \<Rightarrow> string"

section \<open>Relative paths\<close>

text \<open>Python's \<^verbatim>\<open>s.lstrip(chars)\<close>: drop the leading characters that occur in \<open>chars\<close>.\<close>

definition lstrip :: "string \<Rightarrow> string \<Rightarrow> string" where
  "lstrip chars s = dropWhile (\<lambda>c. c \<in> set chars) s"

text \<open>
  \<^verbatim>\<open>get_relative_path(path, len_base_path, base_is_dir)\<close>.  The slice
  \<^verbatim>\<open>path[len_base_path:]\<close> of a length (never negative) is \<open>drop\<close>; past the end of the
  path it is the empty string, in Python as in HOL.
\<close>

definition get_relative_path :: "commoncode \<Rightarrow> pystr \<Rightarrow> nat \<Rightarrow> bool \<Rightarrow> string" where
  "get_relative_path X path len_base_path base_is_dir =
     (let path' = fsdecode X path;
          rel_path = (if base_is_dir then drop len_base_path path' else file_name X path')
      in lstrip ''/'' rel_path)"

text \<open>Whether a displayed path begins with the separator.\<close>

fun starts_with_sep :: "string \<Rightarrow> bool" where
  "starts_with_sep [] = False"
| "starts_with_sep (c # cs) = (c = CHR ''/'')"

text \<open>
  Modelled from the spec: the helpers of \<^verbatim>\<open>commoncode\<close>, which is not part of these
  sources, on posix text, to run the model on concrete paths.  A posix path is left as it
  is by \<^verbatim>\<open>as_posixpath\<close>, text is left as it is by \<^verbatim>\<open>fsdecode\<close> and by the
  transliteration, and the base name of a path that does not end with a separator is
  what follows its last separator.
\<close>

fun base_name :: "string \<Rightarrow> string" where
  "base_name [] = []"
| "base_name (c # cs) = (if CHR ''/'' \<in> set cs then base_name cs
                         else if c = CHR ''/'' then cs else c # cs)"

definition posix_helpers :: commoncode where
  "posix_helpers = \<lparr> as_posixpath = (\<lambda>p. p),
                      fsdecode = (\<lambda>p. case p of Unicode u \<Rightarrow> u | Bytes b \<Rightarrow> b),
                      file_name = base_name,
                      toascii_decode = (\<lambda>b. b) \<rparr>"

section \<open>Live display of one event\<close>




section \<open>The summary\<close>

text \<open>
  A line written by \<^verbatim>\<open>echo_stderr(text, fg=colour)\<close>: its text and its colour.
\<close>

datatype colour = Green | Yellow | Red

type_synonym echo = "string \<times> colour"

text \<open>
  The source as the summary shows it.  The call of \<^verbatim>\<open>get_relative_path\<close> stands inside
  the \<^verbatim>\<open>isinstance\<close> guard, so it runs for a byte string only.
\<close>

definition summary_source :: "commoncode \<Rightarrow> nat \<Rightarrow> bool \<Rightarrow> event \<Rightarrow> string" where
  "summary_source X len_base_path base_is_dir xev =
     (case as_posixpath X (source xev) of
        Unicode u \<Rightarrow> u
      | Bytes b \<Rightarrow> get_relative_path X (Unicode (toascii_decode X b)) len_base_path base_is_dir)"

text \<open>
  The two inner loops of \<^verbatim>\<open>display_extract_summary\<close>: the lines written for one
  event, its errors in red, then its warnings in yellow.
\<close>

definition echo_event :: "commoncode \<Rightarrow> nat \<Rightarrow> bool \<Rightarrow> event \<Rightarrow> echo list" where
  "echo_event X len_base_path base_is_dir xev =
     (let src = summary_source X len_base_path base_is_dir xev
      in map (\<lambda>e. (''ERROR extracting: '' @ src @ '': '' @ e, Red)) (errors xev)
       @ map (\<lambda>w. (''WARNING extracting: '' @ src @ '': '' @ w, Yellow)) (warnings xev))"

text \<open>
  The body of the outer loop of \<^verbatim>\<open>display_extract_summary\<close> on the state
  \<open>(has_warnings, has_errors, lines written so far)\<close>.
\<close>

definition summary_body ::
  "commoncode \<Rightarrow> nat \<Rightarrow> bool \<Rightarrow> bool \<times> bool \<times> echo list \<Rightarrow> event \<Rightarrow> bool \<times> bool \<times> echo list" where
  "summary_body X len_base_path base_is_dir st xev =
     (case st of (has_warnings, has_errors, out) \<Rightarrow>
        (let has_errors' = (has_errors \<or> errors xev \<noteq> []);
             has_warnings' = (has_warnings \<or> warnings xev \<noteq> [])
         in (has_warnings', has_errors', out @ echo_event X len_base_path base_is_dir xev)))"

text \<open>
  \<^verbatim>\<open>display_extract_summary()\<close>, a closure over \<open>extract_result_with_errors\<close>: the lines
  it writes, in order.
\<close>

definition display_extract_summary :: "commoncode \<Rightarrow> nat \<Rightarrow> bool \<Rightarrow> event list \<Rightarrow> echo list" where
  "display_extract_summary X len_base_path base_is_dir extract_result_with_errors =
     (case foldl (summary_body X len_base_path base_is_dir) (False, False, [])
             extract_result_with_errors of
        (has_warnings, has_errors, out) \<Rightarrow>
          (let summary_color = Green;
               summary_color = (if has_warnings then Yellow else summary_color);
               summary_color = (if has_errors then Red else summary_color)
           in out @ [(''Extracting done.'', summary_color)]))"

section \<open>Consuming the event stream\<close>

text \<open>
  \<open>has_extract_errors\<close> starts as \<^verbatim>\<open>False\<close> and is assigned
  \<^verbatim>\<open>has_extract_errors or xev.errors\<close>: Python's \<^verbatim>\<open>or\<close> gives its left operand when that
  is true and its right operand otherwise, so the variable holds \<^verbatim>\<open>False\<close> or a list
  of errors.  A list is true when it is not empty.
\<close>

datatype pyflag = PyFalse | PyList "string list"

fun truthy :: "pyflag \<Rightarrow> bool" where
  "truthy PyFalse = False"
| "truthy (PyList xs) = (xs \<noteq> [])"

definition py_or :: "pyflag \<Rightarrow> pyflag \<Rightarrow> pyflag" where
  "py_or a b = (if truthy a then a else b)"

text \<open>
  The three variables the loops update.  The set holds \<^verbatim>\<open>repr(xev)\<close> of the events
  kept; \<^verbatim>\<open>repr\<close> of an event is a parameter \<open>rp\<close> of the model, into any type.
\<close>

record 'r aggregation =
  extract_result_with_errors :: "event list"
  unique_extract_events_with_errors :: "'r set"
  has_extract_errors :: pyflag

definition initial :: "'r aggregation" where
  "initial = \<lparr> extract_result_with_errors = [],
               unique_extract_events_with_errors = {},
               has_extract_errors = PyFalse \<rparr>"

text \<open>The condition \<^verbatim>\<open>xev.done and (xev.warnings or xev.errors)\<close> of both loops.\<close>

definition done_with_issues :: "event \<Rightarrow> bool" where
  "done_with_issues xev = (done' xev \<and> (warnings xev \<noteq> [] \<or> errors xev \<noteq> []))"

text \<open>A terminal event that carries a non-empty list of errors.\<close>

definition error_bearing :: "event \<Rightarrow> bool" where
  "error_bearing xev = (done' xev \<and> errors xev \<noteq> [])"

text \<open>The body of the loop over \<open>extraction_events\<close>, when not quiet.\<close>

definition observe :: "(event \<Rightarrow> 'r) \<Rightarrow> 'r aggregation \<Rightarrow> event \<Rightarrow> 'r aggregation" where
  "observe rp st xev =
     (if done_with_issues xev then
        (let st1 = st\<lparr> has_extract_errors := py_or (has_extract_errors st) (PyList (errors xev)) \<rparr>
         in if rp xev \<notin> unique_extract_events_with_errors st1 then
              st1\<lparr> extract_result_with_errors := extract_result_with_errors st1 @ [xev],
                   unique_extract_events_with_errors :=
                     insert (rp xev) (unique_extract_events_with_errors st1) \<rparr>
            else st1)
      else st)"

text \<open>The body of the loop over \<open>extractibles\<close>, when quiet.\<close>

definition observe_quiet :: "'r aggregation \<Rightarrow> event \<Rightarrow> 'r aggregation" where
  "observe_quiet st xev =
     (if done_with_issues xev then
        st\<lparr> has_extract_errors := py_or (has_extract_errors st) (PyList (errors xev)) \<rparr>
      else st)"

text \<open>
  The run of \<^verbatim>\<open>extractcode\<close> from the event stream on: the exit status \<open>rc\<close>, the
  variables at the end, and the lines written by \<^verbatim>\<open>echo_stderr\<close>.  The progress manager
  (\<^verbatim>\<open>cliutils.progressmanager\<close>, not part of these sources) hands on the events of the
  stream it wraps; what it displays through \<open>extract_event\<close> is not part of the result.
\<close>

record 'r run =
  rc :: int
  final :: "'r aggregation"
  stderr :: "echo list"

definition extractcode ::
  "commoncode \<Rightarrow> (event \<Rightarrow> 'r) \<Rightarrow> bool \<Rightarrow> nat \<Rightarrow> bool \<Rightarrow> event list \<Rightarrow> 'r run" where
  "extractcode X rp quiet len_base_path base_is_dir extractibles =
     (if \<not> quiet then
        (let st = foldl (observe rp) initial extractibles
         in \<lparr> rc = (if truthy (has_extract_errors st) then 1 else 0),
              final = st,
              stderr = (''Extracting archives...'', Green)
                       # display_extract_summary X len_base_path base_is_dir
                           (extract_result_with_errors st) \<rparr>)
      else
        (let st = foldl observe_quiet initial extractibles
         in \<lparr> rc = (if truthy (has_extract_errors st) then 1 else 0),
              final = st,
              stderr = [] \<rparr>))"

section \<open>The specification's terms\<close>

text \<open>
  The severity tier as the specification words it: error if any failure carried a
  non-empty error list; else warning if any carried a non-empty warning list; else
  clean.  The colour of each tier is the emphasis of the final line.
\<close>

datatype tier = Clean | Warning | Error

definition severity_tier :: "event list \<Rightarrow> tier" where
  "severity_tier failures =
     (if list_ex (\<lambda>ev. errors ev \<noteq> []) failures then Error
      else if list_ex (\<lambda>ev. warnings ev \<noteq> []) failures then Warning
      else Clean)"

fun tier_colour :: "tier \<Rightarrow> colour" where
  "tier_colour Clean = Green"
| "tier_colour Warning = Yellow"
| "tier_colour Error = Red"

text \<open>
  Each distinct element once, in the order of first arrival, as the specification
  words the deduplicated list.
\<close>

fun first_arrivals :: "'a list \<Rightarrow> 'a list" where
  "first_arrivals [] = []"
| "first_arrivals (x # xs) = x # first_arrivals (removeAll x xs)"

section \<open>Example events\<close>

text \<open>
  Three events for the archive \<^verbatim>\<open>/a/b/c/d.zip\<close>, used to run the model: a terminal event
  with a warning only, a terminal event with an error and a warning, and a progress
  event (not terminal) that carries an error.
\<close>

definition ev_warn :: event where
  "ev_warn = \<lparr> source = Unicode ''/a/b/c/d.zip'', done' = True,
               warnings = [''w''], errors = [] \<rparr>"

definition ev_fail :: event where
  "ev_fail = \<lparr> source = Unicode ''/a/b/c/d.zip'', done' = True,
               warnings = [''w''], errors = [''boom''] \<rparr>"

definition ev_progress :: event where
  "ev_progress = \<lparr> source = Unicode ''/a/b/c/d.zip'', done' = False,
                   warnings = [], errors = [''boom''] \<rparr>"

section \<open>Properties of the relative path\<close>

lemma lstrip_no_sep: "\<not> starts_with_sep (lstrip ''/'' s)"
  by (induction s) (simp_all add: lstrip_def)

lemma lstrip_id: "\<not> starts_with_sep s \<Longrightarrow> lstrip ''/'' s = s"
  by (cases s) (simp_all add: lstrip_def)

text \<open>
  Claim C7.  For every path, text or byte string, every base length and both kinds of
  base, with the path read as \<^verbatim>\<open>fsdecode\<close> decodes it: when the base is a directory the
  result is the path without its first \<open>len_base_path\<close> characters, leading separators
  stripped; when the base is a single file it is the base name of the path, leading
  separators stripped, hence the base name itself when that does not begin with a
  separator; in both cases the result does not begin with a separator.  For a path given
  as text that \<^verbatim>\<open>fsdecode\<close> leaves as it is, the path stands for its decoding; so for the
  base \<^verbatim>\<open>/a/b\<close> (a directory, length 4) and the source \<^verbatim>\<open>/a/b/c/d.zip\<close> the result is
  \<^verbatim>\<open>c/d.zip\<close>.
\<close>

theorem get_relative_path_resolves:
  "get_relative_path X path n True =
     dropWhile (\<lambda>c. c = CHR ''/'') (drop n (fsdecode X path))
   \<and> get_relative_path X path n False =
     dropWhile (\<lambda>c. c = CHR ''/'') (file_name X (fsdecode X path))
   \<and> (\<not> starts_with_sep (file_name X (fsdecode X path)) \<longrightarrow>
        get_relative_path X path n False = file_name X (fsdecode X path))
   \<and> \<not> starts_with_sep (get_relative_path X path n b)
   \<and> (fsdecode X (Unicode p) = p \<longrightarrow>
        get_relative_path X (Unicode p) n True = dropWhile (\<lambda>c. c = CHR ''/'') (drop n p)
        \<and> get_relative_path X (Unicode p) n False = dropWhile (\<lambda>c. c = CHR ''/'') (file_name X p)
        \<and> (\<not> starts_with_sep (file_name X p) \<longrightarrow>
             get_relative_path X (Unicode p) n False = file_name X p))
   \<and> (fsdecode X (Unicode ''/a/b/c/d.zip'') = ''/a/b/c/d.zip'' \<longrightarrow>
        get_relative_path X (Unicode ''/a/b/c/d.zip'') 4 True = ''c/d.zip'')"
proof -
  have dir: "get_relative_path X q m True = dropWhile (\<lambda>c. c = CHR ''/'') (drop m (fsdecode X q))"
    for q m
    by (simp add: get_relative_path_def lstrip_def)
  have single: "get_relative_path X q m False = lstrip ''/'' (file_name X (fsdecode X q))"
    for q m
    by (simp add: get_relative_path_def)
  have nosep: "\<not> starts_with_sep (get_relative_path X path n b)"
    by (simp add: get_relative_path_def Let_def lstrip_no_sep)
  have ex: "fsdecode X (Unicode ''/a/b/c/d.zip'') = ''/a/b/c/d.zip'' \<longrightarrow>
            get_relative_path X (Unicode ''/a/b/c/d.zip'') 4 True = ''c/d.zip''"
    by (simp add: dir)
  have general: "get_relative_path X path n True =
       dropWhile (\<lambda>c. c = CHR ''/'') (drop n (fsdecode X path))
     \<and> get_relative_path X path n False =
       dropWhile (\<lambda>c. c = CHR ''/'') (file_name X (fsdecode X path))
     \<and> (\<not> starts_with_sep (file_name X (fsdecode X path)) \<longrightarrow>
          get_relative_path X path n False = file_name X (fsdecode X path))"
    using dir single lstrip_id [of "file_name X (fsdecode X path)"] by (simp add: lstrip_def)
  have on_text: "fsdecode X (Unicode p) = p \<longrightarrow>
        get_relative_path X (Unicode p) n True = dropWhile (\<lambda>c. c = CHR ''/'') (drop n p)
        \<and> get_relative_path X (Unicode p) n False = dropWhile (\<lambda>c. c = CHR ''/'') (file_name X p)
        \<and> (\<not> starts_with_sep (file_name X p) \<longrightarrow>
             get_relative_path X (Unicode p) n False = file_name X p)"
    using dir single lstrip_id [of "file_name X p"] by (simp add: lstrip_def)
  from general nosep on_text ex show ?thesis
    by blast
qed

theorem get_relative_path_resolves_witness:
  "get_relative_path posix_helpers (Unicode ''/a/b/file.zip'') 13 False = ''file.zip''
   \<and> get_relative_path posix_helpers (Unicode ''/a/b//c'') 4 True = ''c''
   \<and> get_relative_path posix_helpers (Unicode ''/a/b/c/d.zip'') 4 True = ''c/d.zip''
   \<and> get_relative_path posix_helpers (Bytes ''/a/b/c/d.zip'') 4 True = ''c/d.zip''
   \<and> \<not> starts_with_sep (get_relative_path posix_helpers (Bytes ''/a/b/c/d.zip'') 4 True)"
proof -
  have h: "fsdecode posix_helpers (Unicode s) = s" for s
    by (simp add: posix_helpers_def)
  have hb: "fsdecode posix_helpers (Bytes ''/a/b/c/d.zip'') = ''/a/b/c/d.zip''"
    by (simp add: posix_helpers_def)
  have "file_name posix_helpers ''/a/b/file.zip'' = ''file.zip''"
    by (simp add: posix_helpers_def)
  moreover have "drop 4 ''/a/b//c'' = ''//c''"
    by simp
  ultimately show ?thesis
    using get_relative_path_resolves [of posix_helpers "Unicode ''/a/b/file.zip''" 13 False
        "''/a/b/file.zip''"]
      get_relative_path_resolves [of posix_helpers "Unicode ''/a/b//c''" 4 True "''/a/b//c''"]
      get_relative_path_resolves [of posix_helpers "Bytes ''/a/b/c/d.zip''" 4 True "''/a/b/c/d.zip''"]
      h hb
    by simp
qed

section \<open>Properties of the live display\<close>




section \<open>Properties of the summary\<close>

lemma foldl_summary_body:
  "foldl (summary_body X n d) (hw, he, out) xs =
     (hw \<or> list_ex (\<lambda>ev. warnings ev \<noteq> []) xs,
      he \<or> list_ex (\<lambda>ev. errors ev \<noteq> []) xs,
      out @ concat (map (echo_event X n d) xs))"
  by (induction xs arbitrary: hw he out) (simp_all add: summary_body_def)

lemma display_extract_summary_eq:
  "display_extract_summary X n d xs =
     concat (map (echo_event X n d) xs) @ [(''Extracting done.'', tier_colour (severity_tier xs))]"
  by (simp add: display_extract_summary_def foldl_summary_body severity_tier_def)

lemma echo_event_not_status:
  "filter (\<lambda>l. fst l = ''Extracting done.'') (echo_event X n d ev) = []"
  by (simp add: echo_event_def Let_def filter_empty_conv)

lemma echo_events_not_status:
  "filter (\<lambda>l. fst l = ''Extracting done.'') (concat (map (echo_event X n d) xs)) = []"
  by (induction xs) (simp_all add: echo_event_not_status)

text \<open>
  Claim C9.  For every list of failures, the summary is the lines of the events followed
  by one final line with the text \<^verbatim>\<open>Extracting done.\<close>, the only line with that text,
  in the colour of the severity tier: error (red) if any listed event has a non-empty
  error list, else warning (yellow) if any has a non-empty warning list, else clean
  (green).
\<close>

theorem summary_severity_tier:
  "display_extract_summary X n d xs =
     concat (map (echo_event X n d) xs) @ [(''Extracting done.'', tier_colour (severity_tier xs))]
   \<and> length (filter (\<lambda>l. fst l = ''Extracting done.'') (display_extract_summary X n d xs)) = 1
   \<and> severity_tier xs =
       (if \<exists>ev \<in> set xs. errors ev \<noteq> [] then Error
        else if \<exists>ev \<in> set xs. warnings ev \<noteq> [] then Warning else Clean)"
  by (simp add: display_extract_summary_eq echo_events_not_status severity_tier_def list_ex_iff)

theorem summary_severity_tier_witness:
  "last (display_extract_summary posix_helpers 4 True []) = (''Extracting done.'', Green)
   \<and> last (display_extract_summary posix_helpers 4 True [ev_warn]) = (''Extracting done.'', Yellow)
   \<and> last (display_extract_summary posix_helpers 4 True [ev_warn, ev_fail]) =
       (''Extracting done.'', Red)"
  using summary_severity_tier [of posix_helpers 4 True "[]"]
    summary_severity_tier [of posix_helpers 4 True "[ev_warn]"]
    summary_severity_tier [of posix_helpers 4 True "[ev_warn, ev_fail]"]
  by (simp add: ev_warn_def ev_fail_def)

text \<open>
  The lines of an event whose source, as a posix path, is text: the source stands in
  them as it is, since \<^verbatim>\<open>get_relative_path\<close> is not called for text.
\<close>

lemma echo_event_text_source:
  assumes "as_posixpath X (source xev) = Unicode u"
  shows "echo_event X n d xev =
      map (\<lambda>e. (''ERROR extracting: '' @ u @ '': '' @ e, Red)) (errors xev)
    @ map (\<lambda>w. (''WARNING extracting: '' @ u @ '': '' @ w, Yellow)) (warnings xev)"
  using assms by (simp add: echo_event_def summary_source_def)

text \<open>
  Claim C1.  The summary is to show each source relative to the base path.  For the base
  \<^verbatim>\<open>/a/b\<close> (a directory, length 4) and a terminal event with the text source
  \<^verbatim>\<open>/a/b/c/d.zip\<close>, one error and one warning, the relative path is \<^verbatim>\<open>c/d.zip\<close>, yet
  the lines written show the absolute path \<^verbatim>\<open>/a/b/c/d.zip\<close>.  The same event with a
  byte string source is shown as \<^verbatim>\<open>c/d.zip\<close>.
\<close>

theorem summary_text_source_not_relative:
  "display_extract_summary posix_helpers 4 True [ev_fail]
   = [(''ERROR extracting: /a/b/c/d.zip: boom'', Red),
      (''WARNING extracting: /a/b/c/d.zip: w'', Yellow),
      (''Extracting done.'', Red)]
  \<and> get_relative_path posix_helpers (Unicode ''/a/b/c/d.zip'') 4 True = ''c/d.zip''
  \<and> display_extract_summary posix_helpers 4 True [ev_fail\<lparr> source := Bytes ''/a/b/c/d.zip'' \<rparr>]
   = [(''ERROR extracting: c/d.zip: boom'', Red),
      (''WARNING extracting: c/d.zip: w'', Yellow),
      (''Extracting done.'', Red)]"
  by (simp add: display_extract_summary_def summary_body_def echo_event_def summary_source_def
      posix_helpers_def get_relative_path_def lstrip_def ev_fail_def)

section \<open>Properties of the exit status\<close>

lemma truthy_py_or: "truthy (py_or a b) = (truthy a \<or> truthy b)"
  by (simp add: py_or_def)

lemma has_observe:
  "truthy (has_extract_errors (observe rp st ev)) =
     (truthy (has_extract_errors st) \<or> error_bearing ev)"
  by (auto simp: observe_def Let_def truthy_py_or done_with_issues_def error_bearing_def)

lemma has_observe_quiet:
  "truthy (has_extract_errors (observe_quiet st ev)) =
     (truthy (has_extract_errors st) \<or> error_bearing ev)"
  by (auto simp: observe_quiet_def truthy_py_or done_with_issues_def error_bearing_def)

lemma has_foldl_observe:
  "truthy (has_extract_errors (foldl (observe rp) st evs)) =
     (truthy (has_extract_errors st) \<or> list_ex error_bearing evs)"
  by (induction evs arbitrary: st) (simp_all add: has_observe)

lemma has_foldl_observe_quiet:
  "truthy (has_extract_errors (foldl observe_quiet st evs)) =
     (truthy (has_extract_errors st) \<or> list_ex error_bearing evs)"
  by (induction evs arbitrary: st) (simp_all add: has_observe_quiet)

lemma rc_extractcode:
  "rc (extractcode X rp quiet n d evs) = (if list_ex error_bearing evs then 1 else 0)"
  by (simp add: extractcode_def Let_def has_foldl_observe has_foldl_observe_quiet initial_def)

text \<open>
  Claim C2.  For every event stream, quiet or not, the exit status is 1 if some terminal
  event of the stream carries a non-empty list of errors, and 0 otherwise; warnings do
  not count.
\<close>

theorem exit_status_reflects_errors:
  "rc (extractcode X rp quiet n d evs) = (if \<exists>ev \<in> set evs. error_bearing ev then 1 else 0)"
  by (simp add: rc_extractcode list_ex_iff)

theorem exit_status_reflects_errors_witness:
  "rc (extractcode posix_helpers (\<lambda>e. e) False 4 True [ev_warn, ev_progress]) = 0
   \<and> rc (extractcode posix_helpers (\<lambda>e. e) False 4 True [ev_warn, ev_fail, ev_warn]) = 1
   \<and> rc (extractcode posix_helpers (\<lambda>e. e) True 4 True [ev_warn, ev_fail, ev_warn]) = 1"
  using exit_status_reflects_errors [of posix_helpers "\<lambda>e. e" False 4 True "[ev_warn, ev_progress]"]
    exit_status_reflects_errors [of posix_helpers "\<lambda>e. e" False 4 True "[ev_warn, ev_fail, ev_warn]"]
    exit_status_reflects_errors [of posix_helpers "\<lambda>e. e" True 4 True "[ev_warn, ev_fail, ev_warn]"]
  by (simp add: error_bearing_def ev_warn_def ev_fail_def ev_progress_def)

text \<open>
  Claim C3.  For every event stream, the exit status of the quiet run equals the exit
  status of the run that is not quiet.
\<close>

theorem exit_status_quiet_invariant:
  "rc (extractcode X rp True n d evs) = rc (extractcode X rp False n d evs)"
  by (simp add: rc_extractcode)

theorem exit_status_quiet_invariant_witness:
  "rc (extractcode posix_helpers (\<lambda>e. e) True 4 True [ev_progress, ev_fail])
   = rc (extractcode posix_helpers (\<lambda>e. e) False 4 True [ev_progress, ev_fail])"
  using exit_status_quiet_invariant [of posix_helpers "\<lambda>e. e" 4 True "[ev_progress, ev_fail]"]
  by simp

text \<open>
  Claim C6.  The state after a prefix of the stream is the final state of the run on
  that prefix.  If the flag \<open>has_extract_errors\<close> is true after the prefix \<open>pre\<close>, it is
  true after \<open>pre\<close> followed by any further events \<open>post\<close>, quiet or not.
\<close>

theorem had_errors_monotone:
  assumes "truthy (has_extract_errors (final (extractcode X rp quiet n d pre)))"
  shows "truthy (has_extract_errors (final (extractcode X rp quiet n d (pre @ post))))"
  using assms
  by (auto simp: extractcode_def Let_def has_foldl_observe has_foldl_observe_quiet
      split: if_splits)

theorem had_errors_monotone_witness:
  "truthy (has_extract_errors (final (extractcode posix_helpers (\<lambda>e. e) False 4 True [ev_fail])))
   \<and> truthy (has_extract_errors
        (final (extractcode posix_helpers (\<lambda>e. e) False 4 True ([ev_fail] @ [ev_warn, ev_progress]))))"
proof -
  have h: "truthy (has_extract_errors (final (extractcode posix_helpers (\<lambda>e. e) False 4 True [ev_fail])))"
    by (simp add: extractcode_def initial_def observe_def done_with_issues_def py_or_def ev_fail_def)
  show ?thesis
    using h had_errors_monotone [OF h, of "[ev_warn, ev_progress]"] by simp
qed

section \<open>Properties of the aggregation\<close>

lemma observe_not_done: "\<not> done' ev \<Longrightarrow> observe rp st ev = st"
  by (simp add: observe_def done_with_issues_def)

lemma observe_quiet_not_done: "\<not> done' ev \<Longrightarrow> observe_quiet st ev = st"
  by (simp add: observe_quiet_def done_with_issues_def)

lemma results_observe:
  "set (extract_result_with_errors (observe rp st ev)) \<subseteq>
     set (extract_result_with_errors st) \<union> (if done_with_issues ev then {ev} else {})"
  by (auto simp: observe_def Let_def)

lemma results_foldl_observe:
  "set (extract_result_with_errors (foldl (observe rp) st evs)) \<subseteq>
     set (extract_result_with_errors st) \<union> {ev \<in> set evs. done_with_issues ev}"
proof (induction evs arbitrary: st)
  case Nil
  then show ?case by simp
next
  case (Cons a evs)
  show ?case
    using Cons.IH [of "observe rp st a"] results_observe [of rp st a]
    by (auto split: if_splits)
qed

lemma results_quiet:
  "extract_result_with_errors (foldl observe_quiet st evs) = extract_result_with_errors st"
  by (induction evs arbitrary: st) (simp_all add: observe_quiet_def)

lemma unique_quiet:
  "unique_extract_events_with_errors (foldl observe_quiet st evs) =
     unique_extract_events_with_errors st"
  by (induction evs arbitrary: st) (simp_all add: observe_quiet_def)

text \<open>
  Claim C5.  An event that is not terminal, whatever its errors, leaves the three
  variables as they are, in the loop that is not quiet and in the quiet one; the run of
  a stream with the event is the run of the stream without it; and the event is in no
  run's list of failures.
\<close>

theorem non_terminal_event_ignored:
  assumes "\<not> done' ev"
  shows "observe rp st ev = st \<and> observe_quiet st ev = st
       \<and> extractcode X rp quiet n d (pre @ ev # post) = extractcode X rp quiet n d (pre @ post)
       \<and> ev \<notin> set (extract_result_with_errors (final (extractcode X rp quiet n d evs)))"
proof -
  have a: "observe rp s ev = s" for s :: "'a aggregation"
    using assms by (rule observe_not_done)
  have b: "observe_quiet s ev = s" for s :: "'a aggregation"
    using assms by (rule observe_quiet_not_done)
  have c: "extractcode X rp quiet n d (pre @ ev # post) = extractcode X rp quiet n d (pre @ post)"
    by (simp add: extractcode_def a b)
  have "ev \<notin> set (extract_result_with_errors (foldl (observe rp) initial evs))"
    using results_foldl_observe [of rp initial evs] assms
    by (auto simp: initial_def done_with_issues_def)
  then have e: "ev \<notin> set (extract_result_with_errors (final (extractcode X rp quiet n d evs)))"
    by (simp add: extractcode_def Let_def results_quiet initial_def)
  show ?thesis
    using a b c e by simp
qed

theorem non_terminal_event_ignored_witness:
  "errors ev_progress = [''boom'']
   \<and> observe (\<lambda>e. e) initial ev_progress = initial
   \<and> observe_quiet (initial :: event aggregation) ev_progress = initial
   \<and> extractcode posix_helpers (\<lambda>e. e) False 4 True ([ev_fail] @ ev_progress # [ev_warn])
       = extractcode posix_helpers (\<lambda>e. e) False 4 True ([ev_fail] @ [ev_warn])
   \<and> ev_progress \<notin> set (extract_result_with_errors
        (final (extractcode posix_helpers (\<lambda>e. e) False 4 True [ev_warn, ev_progress])))"
proof -
  have h: "\<not> done' ev_progress"
    by (simp add: ev_progress_def)
  have e: "errors ev_progress = [''boom'']"
    by (simp add: ev_progress_def)
  from e non_terminal_event_ignored [OF h, of "\<lambda>e. e" initial posix_helpers False 4 True
        "[ev_fail]" "[ev_warn]" "[ev_warn, ev_progress]"]
  show ?thesis
    by blast
qed

text \<open>
  Claim C10.  In a quiet run the list of failures and the set of signatures are empty at
  the end and nothing is written; each step of the quiet loop leaves the list and the set
  as they are, so the flag \<open>has_extract_errors\<close> is the only variable it updates.
\<close>

theorem quiet_run_accumulates_nothing:
  "extract_result_with_errors (final (extractcode X rp True n d evs)) = []
   \<and> unique_extract_events_with_errors (final (extractcode X rp True n d evs)) = {}
   \<and> stderr (extractcode X rp True n d evs) = []
   \<and> extract_result_with_errors (observe_quiet st ev) = extract_result_with_errors st
   \<and> unique_extract_events_with_errors (observe_quiet st ev) =
       unique_extract_events_with_errors st"
  by (simp add: extractcode_def Let_def results_quiet unique_quiet initial_def observe_quiet_def)

theorem quiet_run_accumulates_nothing_witness:
  "extract_result_with_errors
     (final (extractcode posix_helpers (\<lambda>e. e) True 4 True [ev_warn, ev_fail])) = []
   \<and> unique_extract_events_with_errors
     (final (extractcode posix_helpers (\<lambda>e. e) True 4 True [ev_warn, ev_fail])) = {}
   \<and> has_extract_errors
     (final (extractcode posix_helpers (\<lambda>e. e) True 4 True [ev_warn, ev_fail])) = PyList [''boom'']
   \<and> stderr (extractcode posix_helpers (\<lambda>e. e) True 4 True [ev_warn, ev_fail]) = []"
proof -
  have e: "has_extract_errors
      (final (extractcode posix_helpers (\<lambda>e. e) True 4 True [ev_warn, ev_fail])) = PyList [''boom'']"
    by (simp add: extractcode_def initial_def observe_quiet_def done_with_issues_def py_or_def
        ev_warn_def ev_fail_def)
  from e quiet_run_accumulates_nothing [of posix_helpers "\<lambda>e. e" 4 True "[ev_warn, ev_fail]"
        "initial :: event aggregation" ev_warn]
  show ?thesis
    by blast
qed

section \<open>Deduplication\<close>

lemma removeAll_filter: "removeAll x (filter P xs) = filter (\<lambda>e. P e \<and> e \<noteq> x) xs"
  by (induction xs) auto

lemma first_arrivals_set: "set (first_arrivals xs) = set xs"
  by (induction xs rule: first_arrivals.induct) auto

lemma first_arrivals_distinct: "distinct (first_arrivals xs)"
  by (induction xs rule: first_arrivals.induct) (auto simp: first_arrivals_set)

lemma dedup_foldl:
  assumes "inj rp"
  shows "unique_extract_events_with_errors st = rp ` set (extract_result_with_errors st) \<Longrightarrow>
    extract_result_with_errors (foldl (observe rp) st evs) =
      extract_result_with_errors st @
      first_arrivals
        (filter (\<lambda>e. done_with_issues e \<and> e \<notin> set (extract_result_with_errors st)) evs)"
proof (induction evs arbitrary: st)
  case Nil
  then show ?case by simp
next
  case (Cons a evs)
  let ?rs = "extract_result_with_errors st"
  show ?case
  proof (cases "done_with_issues a \<and> a \<notin> set ?rs")
    case True
    then have notin: "rp a \<notin> unique_extract_events_with_errors st"
      using Cons.prems assms by (auto dest: injD)
    have r: "extract_result_with_errors (observe rp st a) = ?rs @ [a]"
      using True notin by (simp add: observe_def Let_def)
    have u: "unique_extract_events_with_errors (observe rp st a) =
             rp ` set (extract_result_with_errors (observe rp st a))"
      using True notin Cons.prems by (simp add: observe_def Let_def)
    show ?thesis
      using Cons.IH [OF u] True by (simp add: r removeAll_filter conj_ac)
  next
    case False
    have r: "extract_result_with_errors (observe rp st a) = ?rs"
      using False Cons.prems by (auto simp: observe_def Let_def)
    have u: "unique_extract_events_with_errors (observe rp st a) =
             rp ` set (extract_result_with_errors (observe rp st a))"
      using False Cons.prems by (auto simp: observe_def Let_def)
    show ?thesis
      using Cons.IH [OF u] False by (auto simp: r)
  qed
qed

text \<open>
  Claim C4.  With \<^verbatim>\<open>repr\<close> telling any two different events apart, the list of failures
  of a run that is not quiet holds the terminal events with a warning or an error, each
  distinct one once, in the order of first arrival; so two such events with the same
  source and different errors or warnings are both kept.  The summary is written from
  that list.
\<close>

theorem failures_deduplicated:
  assumes "inj rp"
  shows "extract_result_with_errors (final (extractcode X rp False n d evs)) =
           first_arrivals (filter done_with_issues evs)
       \<and> distinct (extract_result_with_errors (final (extractcode X rp False n d evs)))
       \<and> set (extract_result_with_errors (final (extractcode X rp False n d evs))) =
           {ev \<in> set evs. done_with_issues ev}
       \<and> stderr (extractcode X rp False n d evs) =
           (''Extracting archives...'', Green)
           # display_extract_summary X n d (first_arrivals (filter done_with_issues evs))"
proof -
  have "extract_result_with_errors (foldl (observe rp) initial evs) =
        first_arrivals (filter done_with_issues evs)"
    using dedup_foldl [OF assms, of initial evs] by (simp add: initial_def)
  then show ?thesis
    by (simp add: extractcode_def Let_def first_arrivals_set first_arrivals_distinct)
qed

theorem failures_deduplicated_witness:
  "extract_result_with_errors
     (final (extractcode posix_helpers (\<lambda>e. e) False 4 True
        [ev_fail, ev_progress, ev_fail, ev_warn, ev_fail, ev_warn]))
   = [ev_fail, ev_warn]"
proof -
  have h: "inj (\<lambda>e :: event. e)"
    by simp
  have ne: "ev_fail \<noteq> ev_warn"
    by (simp add: ev_fail_def ev_warn_def)
  show ?thesis
    using failures_deduplicated [OF h, of posix_helpers 4 True
        "[ev_fail, ev_progress, ev_fail, ev_warn, ev_fail, ev_warn]"] ne
    by (simp add: done_with_issues_def ev_fail_def ev_warn_def ev_progress_def)
qed

end
